theory Spec2Isabelle
  imports Complex_Main
begin

section \<open>Konva groups\<close>

text \<open>
  A \<^verbatim>\<open>Konva.Group\<close> is the renderable handle of an entity and the container of a
  view. The program only reads and writes attributes of it, so a group is the record of
  the attributes the program touches: a call \<^verbatim>\<open>g.attr(v)\<close> stores \<open>v\<close>, a call
  \<^verbatim>\<open>g.attr()\<close> reads the stored value. \<open>node_layer\<close> says whether the group has been
  added to a layer (\<^verbatim>\<open>getLayer()\<close> is then not null). JavaScript numbers are read as
  reals.
\<close>

record Group =
  node_x :: real
  node_y :: real
  node_rotation :: real
  node_scaleX :: real
  node_scaleY :: real
  node_offsetX :: real
  node_offsetY :: real
  node_width :: real
  node_height :: real
  node_visible :: bool
  node_layer :: bool

section \<open>The positioned entity: class Object\<close>

text \<open>
  The fields \<^verbatim>\<open>_Id\<close>, \<^verbatim>\<open>_rank\<close>, ..., \<^verbatim>\<open>_image\<close> of the class are the record fields
  \<open>f_Id\<close>, \<open>f_rank\<close>, ..., \<open>f_image\<close>. Types are erased when the program runs, so a
  reference of declared type \<^verbatim>\<open>Konva.Group\<close> is an optional group: \<open>None\<close> is an absent
  handle (\<^verbatim>\<open>undefined\<close> or \<^verbatim>\<open>null\<close>), and calling a method on it raises
  \<^verbatim>\<open>TypeError\<close>.
\<close>

datatype error = TypeError

record Object =
  f_Id :: nat
  f_rank :: real
  f_rotation :: real
  f_scale :: real
  f_x :: real
  f_y :: real
  f_image :: "Group option"

text \<open>
  The constructor. The module variable \<^verbatim>\<open>ID\<close> is passed in and returned: \<^verbatim>\<open>ID++\<close> is
  the first statement, so the counter has moved also when the constructor raises. An
  omitted argument is \<open>None\<close> and takes the default of the parameter list. The constants
  \<^verbatim>\<open>STAGE_WIDTH\<close> and \<^verbatim>\<open>STAGE_HEIGHT\<close> are imported from \<^verbatim>\<open>./constants\<close>; their
  values are not fixed here and are parameters.
\<close>

definition Object_new ::
  "real \<Rightarrow> real \<Rightarrow> nat \<Rightarrow> Group option \<Rightarrow> real option \<Rightarrow> real option \<Rightarrow> real option
    \<Rightarrow> nat \<times> (error + Object)" where
  "Object_new STAGE_WIDTH STAGE_HEIGHT ID img rank x y =
    (let rank0 = (case rank of None \<Rightarrow> 1 | Some r \<Rightarrow> r);
         x0 = (case x of None \<Rightarrow> STAGE_WIDTH / 2 | Some a \<Rightarrow> a);
         y0 = (case y of None \<Rightarrow> STAGE_HEIGHT / 2 | Some b \<Rightarrow> b);
         this = \<lparr>f_Id = ID, f_rank = rank0, f_rotation = 0, f_scale = 1,
                 f_x = x0, f_y = y0, f_image = img\<rparr>
     in case f_image this of
          None \<Rightarrow> (ID + 1, Inl TypeError)
        | Some g \<Rightarrow>
            (let g1 = g\<lparr>node_offsetX := node_width g / 2\<rparr>;
                 g2 = g1\<lparr>node_offsetY := node_height g1 / 2\<rparr>
             in (ID + 1, Inr (this\<lparr>f_image := Some g2\<rparr>))))"

definition get_Id :: "Object \<Rightarrow> nat" where
  "get_Id this = f_Id this"

definition get_rank :: "Object \<Rightarrow> real" where
  "get_rank this = f_rank this"

definition set_rank :: "real \<Rightarrow> Object \<Rightarrow> Object" where
  "set_rank v this = this\<lparr>f_rank := v\<rparr>"

definition get_rotation :: "Object \<Rightarrow> real" where
  "get_rotation this = f_rotation this"

definition set_rotation :: "real \<Rightarrow> Object \<Rightarrow> error + Object" where
  "set_rotation v this =
    (let this1 = this\<lparr>f_rotation := v\<rparr>
     in case f_image this1 of
          None \<Rightarrow> Inl TypeError
        | Some g \<Rightarrow> Inr (this1\<lparr>f_image := Some (g\<lparr>node_rotation := f_rotation this1\<rparr>)\<rparr>))"

definition get_scale :: "Object \<Rightarrow> real" where
  "get_scale this = f_scale this"

definition set_scale :: "real \<Rightarrow> Object \<Rightarrow> error + Object" where
  "set_scale v this =
    (let this1 = this\<lparr>f_scale := v\<rparr>
     in case f_image this1 of
          None \<Rightarrow> Inl TypeError
        | Some g \<Rightarrow>
            (let g1 = g\<lparr>node_scaleX := v\<rparr>;
                 g2 = g1\<lparr>node_scaleY := v\<rparr>
             in Inr (this1\<lparr>f_image := Some g2\<rparr>)))"

definition get_x :: "Object \<Rightarrow> real" where
  "get_x this = f_x this"

definition set_x :: "real \<Rightarrow> Object \<Rightarrow> error + Object" where
  "set_x v this =
    (let this1 = this\<lparr>f_x := v\<rparr>
     in case f_image this1 of
          None \<Rightarrow> Inl TypeError
        | Some g \<Rightarrow> Inr (this1\<lparr>f_image := Some (g\<lparr>node_x := v\<rparr>)\<rparr>))"

definition get_y :: "Object \<Rightarrow> real" where
  "get_y this = f_y this"

definition set_y :: "real \<Rightarrow> Object \<Rightarrow> error + Object" where
  "set_y v this =
    (let this1 = this\<lparr>f_y := v\<rparr>
     in case f_image this1 of
          None \<Rightarrow> Inl TypeError
        | Some g \<Rightarrow> Inr (this1\<lparr>f_image := Some (g\<lparr>node_y := v\<rparr>)\<rparr>))"

definition get_image :: "Object \<Rightarrow> Group option" where
  "get_image this = f_image this"

definition set_image :: "Group option \<Rightarrow> Object \<Rightarrow> Object" where
  "set_image v this = this\<lparr>f_image := v\<rparr>"

text \<open>
  A client of an entity calls its setters one after the other; a call that raises ends
  the run, as the exception would.
\<close>

datatype setter_call =
    SetRank real
  | SetRotation real
  | SetScale real
  | SetX real
  | SetY real
  | SetImage "Group option"

fun call_setter :: "setter_call \<Rightarrow> Object \<Rightarrow> error + Object" where
  "call_setter (SetRank v) this = Inr (set_rank v this)"
| "call_setter (SetRotation v) this = set_rotation v this"
| "call_setter (SetScale v) this = set_scale v this"
| "call_setter (SetX v) this = set_x v this"
| "call_setter (SetY v) this = set_y v this"
| "call_setter (SetImage h) this = Inr (set_image h this)"

fun call_setters :: "setter_call list \<Rightarrow> Object \<Rightarrow> error + Object" where
  "call_setters [] this = Inr this"
| "call_setters (c # cs) this =
    (case call_setter c this of Inl e \<Rightarrow> Inl e | Inr this1 \<Rightarrow> call_setters cs this1)"

fun handle_present :: "setter_call \<Rightarrow> bool" where
  "handle_present (SetImage None) = False"
| "handle_present _ = True"

text \<open>
  Constructing one entity after the other, each from its own arguments (handle, rank, x,
  y): the counter \<^verbatim>\<open>ID\<close> is threaded through, and the entities that were built are
  collected. A construction that raises is caught by the client and builds nothing.
\<close>

type_synonym Object_args = "Group option \<times> real option \<times> real option \<times> real option"

fun construct_all ::
  "real \<Rightarrow> real \<Rightarrow> nat \<Rightarrow> Object_args list \<Rightarrow> nat \<times> Object list" where
  "construct_all W H ID [] = (ID, [])"
| "construct_all W H ID ((h, rank, x, y) # as) =
    (case Object_new W H ID h rank x y of
       (ID1, Inl e) \<Rightarrow> construct_all W H ID1 as
     | (ID1, Inr ob) \<Rightarrow>
         (case construct_all W H ID1 as of (ID2, obs) \<Rightarrow> (ID2, ob # obs)))"

section \<open>Views, controllers and the application\<close>

text \<open>
  A navigation request \<^verbatim>\<open>{ type: "menu" }\<close> or \<^verbatim>\<open>{ type: "game" }\<close>. The tag is a
  string, as it is when the program runs; the declared type \<^verbatim>\<open>Screen\<close> admits the two
  tags of \<open>recognized\<close>.
\<close>

record Screen =
  screen_type :: string

definition recognized :: "Screen \<Rightarrow> bool" where
  "recognized screen = (screen_type screen = ''menu'' \<or> screen_type screen = ''game'')"

datatype view = MenuScreenView | GameScreenView

datatype controller = MenuScreenController | GameScreenController

text \<open>
  The state of the application: the group of each view, the model of the game controller
  (the class \<^verbatim>\<open>GameScreenModel\<close> is imported from its own module and its state is a type
  parameter), and the number of redraws requested from the layer.
\<close>

record 'm App =
  menuGroup :: Group
  gameGroup :: Group
  model :: 'm
  draws :: nat

text \<open>
  The methods of the views, the controllers and the application are straight-line code
  over three effects: \<^verbatim>\<open>group.visible(b)\<close> and \<^verbatim>\<open>group.getLayer()?.draw()\<close> on the
  group of a view, and \<^verbatim>\<open>model.reset()\<close> on the game model. A method is the list of the
  effects it performs, in the order of its statements, a call of another method being
  the effects of that method; \<open>exec\<close> performs one effect on the state and \<open>run\<close> a list
  of them. \<^verbatim>\<open>GameScreenModel.reset\<close> is the parameter \<open>reset\<close>.
\<close>

datatype effect = SetVisible view bool | DrawLayer view | ModelReset

fun group_of :: "view \<Rightarrow> 'm App \<Rightarrow> Group" where
  "group_of MenuScreenView app = menuGroup app"
| "group_of GameScreenView app = gameGroup app"

fun exec :: "('m \<Rightarrow> 'm) \<Rightarrow> effect \<Rightarrow> 'm App \<Rightarrow> 'm App" where
  "exec reset (SetVisible MenuScreenView b) app =
     app\<lparr>menuGroup := (menuGroup app)\<lparr>node_visible := b\<rparr>\<rparr>"
| "exec reset (SetVisible GameScreenView b) app =
     app\<lparr>gameGroup := (gameGroup app)\<lparr>node_visible := b\<rparr>\<rparr>"
| "exec reset (DrawLayer v) app =
     (if node_layer (group_of v app) then app\<lparr>draws := draws app + 1\<rparr> else app)"
| "exec reset ModelReset app = app\<lparr>model := reset (model app)\<rparr>"

definition run :: "('m \<Rightarrow> 'm) \<Rightarrow> effect list \<Rightarrow> 'm App \<Rightarrow> 'm App" where
  "run reset effs app = fold (exec reset) effs app"

text \<open>The states a run passes through: the state after each effect, in order.\<close>

fun states_during :: "('m \<Rightarrow> 'm) \<Rightarrow> effect list \<Rightarrow> 'm App \<Rightarrow> 'm App list" where
  "states_during reset [] app = []"
| "states_during reset (e # es) app =
     exec reset e app # states_during reset es (exec reset e app)"

definition MenuScreenView_show :: "effect list" where
  "MenuScreenView_show = [SetVisible MenuScreenView True, DrawLayer MenuScreenView]"

definition MenuScreenView_hide :: "effect list" where
  "MenuScreenView_hide = [SetVisible MenuScreenView False, DrawLayer MenuScreenView]"

text \<open>
  Modelled from the spec: the method \<^verbatim>\<open>show\<close> of the class \<^verbatim>\<open>GameScreenView\<close>, whose
  module is missing. By the contract of a view, \<^verbatim>\<open>show()\<close> makes the container visible
  and then requests a redraw.
\<close>

definition GameScreenView_show :: "effect list" where
  "GameScreenView_show = [SetVisible GameScreenView True, DrawLayer GameScreenView]"

text \<open>
  Modelled from the spec: the method \<^verbatim>\<open>hide\<close> of the class \<^verbatim>\<open>GameScreenView\<close>, whose
  module is missing. By the contract of a view, \<^verbatim>\<open>hide()\<close> makes the container
  invisible and then requests a redraw.
\<close>

definition GameScreenView_hide :: "effect list" where
  "GameScreenView_hide = [SetVisible GameScreenView False, DrawLayer GameScreenView]"

text \<open>The interface \<^verbatim>\<open>View\<close>: a call goes to the method of the view's class.\<close>

fun View_show :: "view \<Rightarrow> effect list" where
  "View_show MenuScreenView = MenuScreenView_show"
| "View_show GameScreenView = GameScreenView_show"

fun View_hide :: "view \<Rightarrow> effect list" where
  "View_hide MenuScreenView = MenuScreenView_hide"
| "View_hide GameScreenView = GameScreenView_hide"

fun getView :: "controller \<Rightarrow> view" where
  "getView MenuScreenController = MenuScreenView"
| "getView GameScreenController = GameScreenView"

definition ScreenController_show :: "controller \<Rightarrow> effect list" where
  "ScreenController_show c = View_show (getView c)"

definition ScreenController_hide :: "controller \<Rightarrow> effect list" where
  "ScreenController_hide c = View_hide (getView c)"

definition startGame :: "effect list" where
  "startGame = [ModelReset] @ View_show GameScreenView"

definition switchToScreen :: "Screen \<Rightarrow> effect list" where
  "switchToScreen screen =
     ScreenController_hide MenuScreenController @
     ScreenController_hide GameScreenController @
     (if screen_type screen = ''menu'' then ScreenController_show MenuScreenController
      else if screen_type screen = ''game'' then startGame
      else [])"

definition switchAll :: "('m \<Rightarrow> 'm) \<Rightarrow> Screen list \<Rightarrow> 'm App \<Rightarrow> 'm App" where
  "switchAll reset screens app = fold (\<lambda>screen. run reset (switchToScreen screen)) screens app"

text \<open>
  \<^verbatim>\<open>new Konva.Group({ visible: b })\<close>: the other attributes have Konva's defaults, and the
  group is in no layer yet.
\<close>

definition Konva_Group :: "bool \<Rightarrow> Group" where
  "Konva_Group b =
     \<lparr>node_x = 0, node_y = 0, node_rotation = 0, node_scaleX = 1, node_scaleY = 1,
      node_offsetX = 0, node_offsetY = 0, node_width = 0, node_height = 0,
      node_visible = b, node_layer = False\<rparr>"

definition MenuScreenView_new :: Group where
  "MenuScreenView_new = Konva_Group True"

text \<open>
  Modelled from the spec: the constructor of the class \<^verbatim>\<open>GameScreenView\<close>, whose module
  is missing. A controller starts hidden unless it is the startup screen, which is the
  menu.
\<close>

definition GameScreenView_new :: Group where
  "GameScreenView_new = Konva_Group False"

text \<open>
  The constructor of \<^verbatim>\<open>App\<close>: both controllers are built (\<open>m0\<close> is the new game model),
  both groups are added to the layer, the layer is drawn once, and the menu view is
  shown.
\<close>

definition App_new :: "('m \<Rightarrow> 'm) \<Rightarrow> 'm \<Rightarrow> 'm App" where
  "App_new reset m0 =
     run reset (View_show (getView MenuScreenController))
       \<lparr>menuGroup = MenuScreenView_new\<lparr>node_layer := True\<rparr>,
        gameGroup = GameScreenView_new\<lparr>node_layer := True\<rparr>,
        model = m0, draws = 1\<rparr>"

definition visible_count :: "'m App \<Rightarrow> nat" where
  "visible_count app =
     (if node_visible (menuGroup app) then 1 else 0) +
     (if node_visible (gameGroup app) then 1 else 0)"

definition is_show :: "effect \<Rightarrow> bool" where
  "is_show e = (case e of SetVisible v b \<Rightarrow> b | _ \<Rightarrow> False)"

definition is_hide :: "effect \<Rightarrow> bool" where
  "is_hide e = (case e of SetVisible v b \<Rightarrow> \<not> b | _ \<Rightarrow> False)"

section \<open>Properties of the positioned entity\<close>

lemmas setter_defs = set_rank_def set_rotation_def set_scale_def set_x_def set_y_def set_image_def

lemmas getter_defs = get_Id_def get_rank_def get_rotation_def get_scale_def get_x_def get_y_def
  get_image_def

lemma Object_new_fst: "fst (Object_new W H ID img rank x y) = ID + 1"
  by (simp add: Object_new_def Let_def split: option.splits)

lemma Object_new_Inr:
  "snd (Object_new W H ID img rank x y) = Inr ob \<Longrightarrow> f_Id ob = ID \<and> f_image ob \<noteq> None"
  by (auto simp add: Object_new_def Let_def split: option.splits)

lemma Object_new_isl: "isl (snd (Object_new W H ID img rank x y)) \<longleftrightarrow> img = None"
  by (simp add: Object_new_def Let_def split: option.splits)

lemma call_setter_ok:
  "f_image ob \<noteq> None \<Longrightarrow> handle_present c \<Longrightarrow>
     \<exists>ob'. call_setter c ob = Inr ob' \<and> f_image ob' \<noteq> None \<and> f_Id ob' = f_Id ob"
  by (cases c rule: handle_present.cases) (auto simp add: setter_defs Let_def)

lemma call_setters_ok:
  "f_image ob \<noteq> None \<Longrightarrow> list_all handle_present cs \<Longrightarrow>
     \<exists>ob'. call_setters cs ob = Inr ob' \<and> f_image ob' \<noteq> None"
proof (induction cs arbitrary: ob)
  case Nil
  then show ?case by simp
next
  case (Cons c cs)
  from Cons.prems obtain ob1 where
    step: "call_setter c ob = Inr ob1" and present: "f_image ob1 \<noteq> None"
    using call_setter_ok [of ob c] by auto
  from Cons.IH [OF present] Cons.prems(2) step show ?case by simp
qed

lemma call_setter_Id: "call_setter c ob = Inr ob' \<Longrightarrow> f_Id ob' = f_Id ob"
  by (cases c) (auto simp add: setter_defs Let_def split: option.splits)

lemma call_setters_Id: "call_setters cs ob = Inr ob' \<Longrightarrow> f_Id ob' = f_Id ob"
proof (induction cs arbitrary: ob)
  case Nil
  then show ?case by simp
next
  case (Cons c cs)
  then show ?case
    by (auto split: sum.splits dest: call_setter_Id)
qed

lemma construct_all_fst: "fst (construct_all W H ID as) = ID + length as"
proof (induction as arbitrary: ID)
  case Nil
  then show ?case by simp
next
  case (Cons a as)
  obtain h rank x y where a: "a = (h, rank, x, y)" by (cases a) auto
  obtain ID1 r where new: "Object_new W H ID h rank x y = (ID1, r)" by (cases "Object_new W H ID h rank x y")
  then have ID1: "ID1 = ID + 1" using Object_new_fst [of W H ID h rank x y] by simp
  show ?case using Cons.IH [of ID1] a new ID1
    by (cases r) (auto split: prod.splits)
qed

lemma construct_all_bounds:
  "ob \<in> set (snd (construct_all W H ID as)) \<Longrightarrow>
     ID \<le> f_Id ob \<and> f_Id ob < fst (construct_all W H ID as)"
proof (induction as arbitrary: ID)
  case Nil
  then show ?case by simp
next
  case (Cons a as)
  obtain h rank x y where a: "a = (h, rank, x, y)" by (cases a) auto
  obtain ID1 r where new: "Object_new W H ID h rank x y = (ID1, r)" by (cases "Object_new W H ID h rank x y")
  then have ID1: "ID1 = ID + 1" using Object_new_fst [of W H ID h rank x y] by simp
  have fst_eq: "fst (construct_all W H ID (a # as)) = fst (construct_all W H ID1 as)"
    using a new by (cases r) (auto split: prod.splits)
  show ?case
  proof (cases r)
    case (Inl e)
    then have "ob \<in> set (snd (construct_all W H ID1 as))"
      using Cons.prems a new by simp
    from Cons.IH [OF this] show ?thesis using fst_eq ID1 by simp
  next
    case (Inr o1)
    then have Id1: "f_Id o1 = ID"
      using Object_new_Inr [of W H ID h rank x y o1] new by simp
    from Inr have "ob = o1 \<or> ob \<in> set (snd (construct_all W H ID1 as))"
      using Cons.prems a new by (auto split: prod.splits)
    then show ?thesis
    proof
      assume "ob = o1"
      then show ?thesis using Id1 fst_eq construct_all_fst [of W H ID1 as] ID1 by simp
    next
      assume "ob \<in> set (snd (construct_all W H ID1 as))"
      from Cons.IH [OF this] show ?thesis using fst_eq ID1 by simp
    qed
  qed
qed

lemma construct_all_increasing:
  "sorted_wrt (<) (map f_Id (snd (construct_all W H ID as)))"
proof (induction as arbitrary: ID)
  case Nil
  then show ?case by simp
next
  case (Cons a as)
  obtain h rank x y where a: "a = (h, rank, x, y)" by (cases a) auto
  obtain ID1 r where new: "Object_new W H ID h rank x y = (ID1, r)" by (cases "Object_new W H ID h rank x y")
  then have ID1: "ID1 = ID + 1" using Object_new_fst [of W H ID h rank x y] by simp
  show ?case
  proof (cases r)
    case (Inl e)
    then show ?thesis using Cons.IH [of ID1] a new by simp
  next
    case (Inr o1)
    then have Id1: "f_Id o1 = ID"
      using Object_new_Inr [of W H ID h rank x y o1] new by simp
    have later: "\<forall>ob \<in> set (snd (construct_all W H ID1 as)). f_Id o1 < f_Id ob"
      using construct_all_bounds [of _ W H ID1 as] Id1 ID1 by fastforce
    show ?thesis using Cons.IH [of ID1] a new Inr later
      by (auto split: prod.splits)
  qed
qed

lemma construct_all_length:
  "list_all (\<lambda>a. fst a \<noteq> None) as \<Longrightarrow> length (snd (construct_all W H ID as)) = length as"
proof (induction as arbitrary: ID)
  case Nil
  then show ?case by simp
next
  case (Cons a as)
  obtain h rank x y where a: "a = (h, rank, x, y)" by (cases a) auto
  obtain ID1 r where new: "Object_new W H ID h rank x y = (ID1, r)" by (cases "Object_new W H ID h rank x y")
  from Cons.prems a have "h \<noteq> None" by simp
  then have "\<not> isl r" using Object_new_isl [of W H ID h rank x y] new by simp
  then obtain o1 where "r = Inr o1" by (cases r) auto
  then show ?case using Cons.IH [of ID1] Cons.prems a new by (auto split: prod.splits)
qed

text \<open>
  C4: constructing an entity with the default x and y centres it at the midpoint of the
  container, the handle being positioned at (\<open>STAGE_WIDTH / 2\<close>, \<open>STAGE_HEIGHT / 2\<close>), and
  the offset of the handle is half its measured width and height. The constructor stores
  the midpoint in the entity and sets the offset, but it never passes the position on to the
  handle, as the setters of \<open>x\<close> and \<open>y\<close> do: on a stage of 800 by 600, a fresh group of
  100 by 50 is still at (0, 0) after the construction, while the entity records (400, 300).
\<close>

theorem default_position_not_applied_to_handle:
  "\<exists>ob k. Object_new 800 600 0
        (Some ((Konva_Group True)\<lparr>node_width := 100, node_height := 50\<rparr>)) None None None
        = (1, Inr ob) \<and>
      get_image ob = Some k \<and>
      get_x ob = 400 \<and> get_y ob = 300 \<and>
      node_x k = 0 \<and> node_y k = 0 \<and>
      node_offsetX k = 50 \<and> node_offsetY k = 25"
  by (simp add: Object_new_def getter_defs Konva_Group_def Let_def)

text \<open>
  C5: the construction of an entity fails exactly when the handle is absent, and a
  constructed entity has its handle. The setters of the rank and of the handle only
  store and succeed on every entity and every value, an absent handle included. The
  setters of rotation, scale, x and y call the handle: on every value, each of them
  fails exactly when the entity holds no handle at the time of the call, which is the
  case only after the setter of the handle has stored an absent one. So every sequence
  of setter calls that passes a handle wherever a handle is declared succeeds, on every
  entity that holds a handle, and leaves it holding one.
\<close>

theorem setters_fail_iff_handle_absent:
  "(isl (snd (Object_new W H ID img rank x y)) \<longleftrightarrow> img = None) \<and>
   (snd (Object_new W H ID img rank x y) = Inr ob \<longrightarrow> get_image ob \<noteq> None) \<and>
   \<not> isl (call_setter (SetRank v) this) \<and>
   \<not> isl (call_setter (SetImage h) this) \<and>
   (isl (set_rotation v this) \<longleftrightarrow> get_image this = None) \<and>
   (isl (set_scale v this) \<longleftrightarrow> get_image this = None) \<and>
   (isl (set_x v this) \<longleftrightarrow> get_image this = None) \<and>
   (isl (set_y v this) \<longleftrightarrow> get_image this = None) \<and>
   (get_image this \<noteq> None \<and> list_all handle_present cs \<longrightarrow>
      (\<exists>t. call_setters cs this = Inr t \<and> get_image t \<noteq> None))"
proof (intro conjI impI)
  show "isl (snd (Object_new W H ID img rank x y)) \<longleftrightarrow> img = None"
    by (rule Object_new_isl)
  show "\<not> isl (call_setter (SetRank v) this)"
    by simp
  show "\<not> isl (call_setter (SetImage h) this)"
    by simp
  show "isl (set_rotation v this) \<longleftrightarrow> get_image this = None"
    by (simp add: set_rotation_def get_image_def Let_def split: option.splits)
  show "isl (set_scale v this) \<longleftrightarrow> get_image this = None"
    by (simp add: set_scale_def get_image_def Let_def split: option.splits)
  show "isl (set_x v this) \<longleftrightarrow> get_image this = None"
    by (simp add: set_x_def get_image_def Let_def split: option.splits)
  show "isl (set_y v this) \<longleftrightarrow> get_image this = None"
    by (simp add: set_y_def get_image_def Let_def split: option.splits)
next
  assume "snd (Object_new W H ID img rank x y) = Inr ob"
  then show "get_image ob \<noteq> None"
    using Object_new_Inr [of W H ID img rank x y ob] by (simp add: get_image_def)
next
  assume "get_image this \<noteq> None \<and> list_all handle_present cs"
  then have "f_image this \<noteq> None" and "list_all handle_present cs"
    by (simp_all add: get_image_def)
  from call_setters_ok [OF this]
  show "\<exists>t. call_setters cs this = Inr t \<and> get_image t \<noteq> None"
    by (simp add: get_image_def)
qed

theorem setters_fail_iff_handle_absent_witness:
  "isl (snd (Object_new 800 600 0 None None None None)) \<and>
   snd (Object_new 800 600 0 (Some (Konva_Group True)) None (Some 3) None) =
     Inr \<lparr>f_Id = 0, f_rank = 1, f_rotation = 0, f_scale = 1, f_x = 3, f_y = 300,
          f_image = Some (Konva_Group True)\<rparr> \<and>
   get_image \<lparr>f_Id = 0, f_rank = 1, f_rotation = 0, f_scale = 1, f_x = 3, f_y = 300,
      f_image = Some (Konva_Group True)\<rparr> \<noteq> None \<and>
   \<not> isl (set_rotation 90
     \<lparr>f_Id = 0, f_rank = 1, f_rotation = 0, f_scale = 1, f_x = 3, f_y = 300,
      f_image = Some (Konva_Group True)\<rparr>) \<and>
   list_all handle_present [SetX 5, SetImage (Some (Konva_Group False)), SetScale 2] \<and>
   (\<exists>t. call_setters [SetX 5, SetImage (Some (Konva_Group False)), SetScale 2]
       \<lparr>f_Id = 0, f_rank = 1, f_rotation = 0, f_scale = 1, f_x = 3, f_y = 300,
        f_image = Some (Konva_Group True)\<rparr> = Inr t \<and>
      get_image t \<noteq> None)"
  using
    setters_fail_iff_handle_absent [where W = 800 and H = 600 and ID = 0
      and img = None and rank = None and x = None and y = None]
    setters_fail_iff_handle_absent [where W = 800 and H = 600 and ID = 0
      and img = "Some (Konva_Group True)" and rank = None and x = "Some 3" and y = None
      and v = 90 and cs = "[SetX 5, SetImage (Some (Konva_Group False)), SetScale 2]"
      and ob = "\<lparr>f_Id = 0, f_rank = 1, f_rotation = 0, f_scale = 1, f_x = 3, f_y = 300,
          f_image = Some (Konva_Group True)\<rparr>"
      and this = "\<lparr>f_Id = 0, f_rank = 1, f_rotation = 0, f_scale = 1, f_x = 3, f_y = 300,
          f_image = Some (Konva_Group True)\<rparr>"]
  by (simp add: Object_new_def Konva_Group_def Let_def get_image_def)

text \<open>
  The claim as it was stated, that every setter succeeds on every value, fails: on an
  entity fresh from the constructor the setter of the handle accepts an absent handle,
  and the setter of x called next raises, as do those of y, rotation and scale.
\<close>

theorem setter_raises_after_absent_handle:
  "snd (Object_new 800 600 0 (Some (Konva_Group True)) None None None) =
     Inr \<lparr>f_Id = 0, f_rank = 1, f_rotation = 0, f_scale = 1, f_x = 400, f_y = 300,
          f_image = Some (Konva_Group True)\<rparr> \<and>
   call_setters [SetImage None, SetX 5]
     \<lparr>f_Id = 0, f_rank = 1, f_rotation = 0, f_scale = 1, f_x = 400, f_y = 300,
      f_image = Some (Konva_Group True)\<rparr> = Inl TypeError \<and>
   set_y 5 (set_image None
     \<lparr>f_Id = 0, f_rank = 1, f_rotation = 0, f_scale = 1, f_x = 400, f_y = 300,
      f_image = Some (Konva_Group True)\<rparr>) = Inl TypeError \<and>
   set_rotation 5 (set_image None
     \<lparr>f_Id = 0, f_rank = 1, f_rotation = 0, f_scale = 1, f_x = 400, f_y = 300,
      f_image = Some (Konva_Group True)\<rparr>) = Inl TypeError \<and>
   set_scale 5 (set_image None
     \<lparr>f_Id = 0, f_rank = 1, f_rotation = 0, f_scale = 1, f_x = 400, f_y = 300,
      f_image = Some (Konva_Group True)\<rparr>) = Inl TypeError"
  by (simp add: Object_new_def Konva_Group_def Let_def setter_defs)

text \<open>
  C6: on an entity with its handle, setting the rotation, the scale, x or y to a value
  \<open>v\<close> makes the attribute of the handle exactly \<open>v\<close> (the scale on both axes), changes
  no other attribute of the handle, and the entity reads back \<open>v\<close>.
\<close>

theorem setters_propagate_exactly:
  "f_image this = Some g \<longrightarrow>
     (\<exists>t. set_rotation v this = Inr t \<and> get_rotation t = v \<and>
          get_image t = Some (g\<lparr>node_rotation := v\<rparr>)) \<and>
     (\<exists>t. set_scale v this = Inr t \<and> get_scale t = v \<and>
          get_image t = Some (g\<lparr>node_scaleX := v, node_scaleY := v\<rparr>)) \<and>
     (\<exists>t. set_x v this = Inr t \<and> get_x t = v \<and>
          get_image t = Some (g\<lparr>node_x := v\<rparr>)) \<and>
     (\<exists>t. set_y v this = Inr t \<and> get_y t = v \<and>
          get_image t = Some (g\<lparr>node_y := v\<rparr>))"
  by (simp add: setter_defs getter_defs Let_def)

theorem setters_propagate_exactly_witness:
  "f_image \<lparr>f_Id = 4, f_rank = 1, f_rotation = 0, f_scale = 1, f_x = 400, f_y = 300,
      f_image = Some (Konva_Group True)\<rparr> = Some (Konva_Group True) \<and>
   (\<exists>t. set_scale (-2.5) \<lparr>f_Id = 4, f_rank = 1, f_rotation = 0, f_scale = 1, f_x = 400,
        f_y = 300, f_image = Some (Konva_Group True)\<rparr> = Inr t \<and>
      get_scale t = -2.5 \<and>
      get_image t = Some ((Konva_Group True)\<lparr>node_scaleX := -2.5, node_scaleY := -2.5\<rparr>)) \<and>
   (\<exists>t. set_rotation 725 \<lparr>f_Id = 4, f_rank = 1, f_rotation = 0, f_scale = 1, f_x = 400,
        f_y = 300, f_image = Some (Konva_Group True)\<rparr> = Inr t \<and>
      get_rotation t = 725 \<and>
      get_image t = Some ((Konva_Group True)\<lparr>node_rotation := 725\<rparr>))"
  using
    setters_propagate_exactly [where v = "-2.5" and g = "Konva_Group True"
      and this = "\<lparr>f_Id = 4, f_rank = 1, f_rotation = 0, f_scale = 1, f_x = 400, f_y = 300,
        f_image = Some (Konva_Group True)\<rparr>"]
    setters_propagate_exactly [where v = 725 and g = "Konva_Group True"
      and this = "\<lparr>f_Id = 4, f_rank = 1, f_rotation = 0, f_scale = 1, f_x = 400, f_y = 300,
        f_image = Some (Konva_Group True)\<rparr>"]
  by simp

text \<open>
  C7: the identities of entities are unique and stable. The entities built one after the
  other from the counter \<open>ID\<close> have strictly increasing, hence pairwise distinct,
  identities, all from \<open>ID\<close> on and below the counter that the constructions leave, so
  that no later entity takes one of them; \<open>N\<close> constructions with a handle build \<open>N\<close>
  entities; and no sequence of setter calls changes what \<open>Id\<close> reads. The counter is a
  natural number: a JavaScript number holds every integer below \<open>2 ^ 53\<close> exactly.
\<close>

theorem identity_unique_and_stable:
  "distinct (map get_Id (snd (construct_all W H ID as))) \<and>
   sorted_wrt (<) (map get_Id (snd (construct_all W H ID as))) \<and>
   (\<forall>ob \<in> set (snd (construct_all W H ID as)).
       ID \<le> get_Id ob \<and> get_Id ob < fst (construct_all W H ID as)) \<and>
   (list_all (\<lambda>a. fst a \<noteq> None) as \<longrightarrow> length (snd (construct_all W H ID as)) = length as) \<and>
   (call_setters cs ob = Inr ob' \<longrightarrow> get_Id ob' = get_Id ob)"
proof -
  have get: "get_Id = f_Id" by (simp add: fun_eq_iff get_Id_def)
  have inc: "sorted_wrt (<) (map f_Id (snd (construct_all W H ID as)))"
    by (rule construct_all_increasing)
  then have dist: "distinct (map f_Id (snd (construct_all W H ID as)))"
    by (simp add: strict_sorted_iff)
  have bounds: "\<forall>ob \<in> set (snd (construct_all W H ID as)).
       ID \<le> f_Id ob \<and> f_Id ob < fst (construct_all W H ID as)"
    using construct_all_bounds by blast
  have len: "list_all (\<lambda>a. fst a \<noteq> None) as \<longrightarrow>
      length (snd (construct_all W H ID as)) = length as"
    using construct_all_length by blast
  have stable: "call_setters cs ob = Inr ob' \<longrightarrow> f_Id ob' = f_Id ob"
    using call_setters_Id by blast
  from inc dist bounds len stable show ?thesis
    unfolding get by blast
qed

theorem identity_unique_and_stable_witness:
  "map get_Id (snd (construct_all 800 600 3
     [(Some (Konva_Group True), None, None, None),
      (Some (Konva_Group False), Some 2, Some 10, Some 20)])) = [3, 4] \<and>
   fst (construct_all 800 600 3
     [(Some (Konva_Group True), None, None, None),
      (Some (Konva_Group False), Some 2, Some 10, Some 20)]) = 5 \<and>
   distinct (map get_Id (snd (construct_all 800 600 3
     [(Some (Konva_Group True), None, None, None),
      (Some (Konva_Group False), Some 2, Some 10, Some 20)]))) \<and>
   list_all (\<lambda>a. fst a \<noteq> None)
     [(Some (Konva_Group True), None, None, None),
      (Some (Konva_Group False), Some 2, Some 10, Some 20)] \<and>
   length (snd (construct_all 800 600 3
     [(Some (Konva_Group True), None, None, None),
      (Some (Konva_Group False), Some 2, Some 10, Some 20)])) = 2 \<and>
   call_setters [SetX 1, SetImage (Some (Konva_Group False)), SetRank 9]
     \<lparr>f_Id = 3, f_rank = 1, f_rotation = 0, f_scale = 1, f_x = 400, f_y = 300,
      f_image = Some (Konva_Group True)\<rparr> =
     Inr \<lparr>f_Id = 3, f_rank = 9, f_rotation = 0, f_scale = 1, f_x = 1, f_y = 300,
          f_image = Some (Konva_Group False)\<rparr> \<and>
   get_Id \<lparr>f_Id = 3, f_rank = 9, f_rotation = 0, f_scale = 1, f_x = 1, f_y = 300,
      f_image = Some (Konva_Group False)\<rparr> =
     get_Id \<lparr>f_Id = 3, f_rank = 1, f_rotation = 0, f_scale = 1, f_x = 400, f_y = 300,
      f_image = Some (Konva_Group True)\<rparr>"
  using
    identity_unique_and_stable [where W = 800 and H = 600 and ID = 3
      and as = "[(Some (Konva_Group True), None, None, None),
        (Some (Konva_Group False), Some 2, Some 10, Some 20)]"
      and cs = "[SetX 1, SetImage (Some (Konva_Group False)), SetRank 9]"
      and ob = "\<lparr>f_Id = 3, f_rank = 1, f_rotation = 0, f_scale = 1, f_x = 400, f_y = 300,
        f_image = Some (Konva_Group True)\<rparr>"
      and ob' = "\<lparr>f_Id = 3, f_rank = 9, f_rotation = 0, f_scale = 1, f_x = 1, f_y = 300,
        f_image = Some (Konva_Group False)\<rparr>"]
  by (simp add: Object_new_def Konva_Group_def Let_def setter_defs getter_defs)

text \<open>
  C9: setting the handle of an entity stores the new handle as it is, so the offset of
  the new handle is what it was before and is not computed again, and it changes neither
  the identity nor the rank, rotation, scale, x or y of the entity.
\<close>

theorem set_image_keeps_bookkeeping:
  "get_image (set_image h this) = h \<and>
   get_Id (set_image h this) = get_Id this \<and>
   get_rank (set_image h this) = get_rank this \<and>
   get_rotation (set_image h this) = get_rotation this \<and>
   get_scale (set_image h this) = get_scale this \<and>
   get_x (set_image h this) = get_x this \<and>
   get_y (set_image h this) = get_y this \<and>
   (\<exists>k. get_image (set_image (Some g) this) = Some k \<and>
        node_offsetX k = node_offsetX g \<and> node_offsetY k = node_offsetY g)"
  by (simp add: setter_defs getter_defs)

theorem set_image_keeps_bookkeeping_witness:
  "get_image (set_image (Some ((Konva_Group True)\<lparr>node_width := 100, node_offsetX := 7\<rparr>))
      \<lparr>f_Id = 4, f_rank = 1, f_rotation = 30, f_scale = 2, f_x = 400, f_y = 300,
       f_image = Some (Konva_Group True)\<rparr>) =
     Some ((Konva_Group True)\<lparr>node_width := 100, node_offsetX := 7\<rparr>) \<and>
   get_Id (set_image (Some ((Konva_Group True)\<lparr>node_width := 100, node_offsetX := 7\<rparr>))
      \<lparr>f_Id = 4, f_rank = 1, f_rotation = 30, f_scale = 2, f_x = 400, f_y = 300,
       f_image = Some (Konva_Group True)\<rparr>) = 4 \<and>
   get_rotation (set_image (Some ((Konva_Group True)\<lparr>node_width := 100, node_offsetX := 7\<rparr>))
      \<lparr>f_Id = 4, f_rank = 1, f_rotation = 30, f_scale = 2, f_x = 400, f_y = 300,
       f_image = Some (Konva_Group True)\<rparr>) = 30"
  using
    set_image_keeps_bookkeeping [where g = "Konva_Group True"
      and h = "Some ((Konva_Group True)\<lparr>node_width := 100, node_offsetX := 7\<rparr>)"
      and this = "\<lparr>f_Id = 4, f_rank = 1, f_rotation = 30, f_scale = 2, f_x = 400, f_y = 300,
        f_image = Some (Konva_Group True)\<rparr>"]
  by (simp add: getter_defs)

text \<open>
  C10: the constructor does not pass the initial position on to the handle. After a
  construction with a handle, the handle is the one that was passed with only its offset
  written, so its x and y are what they were before, while the entity stores the given
  (or default) position: the two differ whenever the handle was not already there, and
  they agree once the setter of x (or of y) has been called.
\<close>

theorem constructor_leaves_handle_position:
  "\<exists>ob k. snd (Object_new W H ID (Some g) rank x y) = Inr ob \<and>
      get_image ob = Some k \<and>
      k = g\<lparr>node_offsetX := node_width g / 2, node_offsetY := node_height g / 2\<rparr> \<and>
      node_x k = node_x g \<and> node_y k = node_y g \<and>
      get_x ob = (case x of None \<Rightarrow> W / 2 | Some a \<Rightarrow> a) \<and>
      get_y ob = (case y of None \<Rightarrow> H / 2 | Some b \<Rightarrow> b) \<and>
      ((case x of None \<Rightarrow> W / 2 | Some a \<Rightarrow> a) \<noteq> node_x g \<longrightarrow> get_x ob \<noteq> node_x k) \<and>
      ((case y of None \<Rightarrow> H / 2 | Some b \<Rightarrow> b) \<noteq> node_y g \<longrightarrow> get_y ob \<noteq> node_y k) \<and>
      (\<forall>v. \<exists>t j. set_x v ob = Inr t \<and> get_image t = Some j \<and> get_x t = node_x j) \<and>
      (\<forall>v. \<exists>t j. set_y v ob = Inr t \<and> get_image t = Some j \<and> get_y t = node_y j)"
  by (simp add: Object_new_def setter_defs getter_defs Let_def)

theorem constructor_leaves_handle_position_witness:
  "\<exists>ob k. snd (Object_new 800 600 0 (Some (Konva_Group True)) None None (Some 20)) = Inr ob \<and>
      get_image ob = Some k \<and>
      node_x k = 0 \<and> node_y k = 0 \<and> get_x ob = 400 \<and> get_y ob = 20 \<and>
      get_x ob \<noteq> node_x k \<and> get_y ob \<noteq> node_y k"
  using
    constructor_leaves_handle_position [where W = 800 and H = 600 and ID = 0
      and g = "Konva_Group True" and rank = None and x = None and y = "Some 20"]
  by (auto simp add: Konva_Group_def)

section \<open>Properties of the screen switcher\<close>

lemmas method_defs =
  switchToScreen_def ScreenController_hide_def ScreenController_show_def startGame_def
  MenuScreenView_hide_def MenuScreenView_show_def GameScreenView_hide_def
  GameScreenView_show_def

lemma run_append: "run reset (es @ fs) app = run reset fs (run reset es app)"
  by (simp add: run_def)

lemma switchToScreen_menu_visible:
  "node_visible (menuGroup (run reset (switchToScreen screen) app)) = (screen_type screen = ''menu'')"
  by (simp add: switchToScreen_def run_def ScreenController_hide_def ScreenController_show_def
      startGame_def MenuScreenView_hide_def MenuScreenView_show_def GameScreenView_hide_def
      GameScreenView_show_def)

lemma switchToScreen_game_visible:
  "node_visible (gameGroup (run reset (switchToScreen screen) app)) = (screen_type screen = ''game'')"
  by (auto simp add: switchToScreen_def run_def ScreenController_hide_def ScreenController_show_def
      startGame_def MenuScreenView_hide_def MenuScreenView_show_def GameScreenView_hide_def
      GameScreenView_show_def)

lemma switchAll_snoc:
  "switchAll reset (screens @ [screen]) app =
     run reset (switchToScreen screen) (switchAll reset screens app)"
  by (simp add: switchAll_def)

lemma visible_count_switchToScreen:
  "visible_count (run reset (switchToScreen screen) app) = (if recognized screen then 1 else 0)"
  by (auto simp add: visible_count_def switchToScreen_menu_visible switchToScreen_game_visible
      recognized_def)

lemma visible_count_App_new: "visible_count (App_new reset mdl) = 1"
  by (simp add: visible_count_def App_new_def run_def MenuScreenView_show_def
      MenuScreenView_new_def GameScreenView_new_def Konva_Group_def)

lemma visible_count_switchAll:
  "visible_count (switchAll reset screens (App_new reset mdl)) =
     (if screens = [] \<or> recognized (last screens) then 1 else 0)"
proof (cases screens rule: rev_cases)
  case Nil
  then show ?thesis by (simp add: switchAll_def visible_count_App_new)
next
  case (snoc ys y)
  then show ?thesis by (simp add: switchAll_snoc visible_count_switchToScreen)
qed

lemma hide_all_split:
  "switchToScreen screen =
     (ScreenController_hide MenuScreenController @ ScreenController_hide GameScreenController) @
     (if screen_type screen = ''menu'' then ScreenController_show MenuScreenController
      else if screen_type screen = ''game'' then startGame else [])"
  by (simp add: switchToScreen_def)

lemma states_during_switchToScreen:
  "s \<in> set (states_during reset (switchToScreen screen) app) \<Longrightarrow> visible_count s \<le> 1"
  by (auto simp add: method_defs visible_count_def split: if_splits)

lemma switchToScreen_game:
  "switchToScreen \<lparr>screen_type = ''game''\<rparr> =
     [SetVisible MenuScreenView False, DrawLayer MenuScreenView,
      SetVisible GameScreenView False, DrawLayer GameScreenView] @ [ModelReset] @ [] @
      [SetVisible GameScreenView True] @ [DrawLayer GameScreenView]"
  by (simp add: method_defs)

text \<open>
  C1: after a call of \<open>switchToScreen\<close> with a recognized tag exactly one view is visible,
  and after any call at most one; so it is after every sequence of calls from the state
  the constructor of the application leaves.
\<close>

theorem switchToScreen_one_visible:
  "visible_count (run reset (switchToScreen screen) app) \<le> 1 \<and>
   (recognized screen \<longrightarrow> visible_count (run reset (switchToScreen screen) app) = 1) \<and>
   visible_count (switchAll reset screens (App_new reset mdl)) \<le> 1 \<and>
   (list_all recognized screens \<longrightarrow>
      visible_count (switchAll reset screens (App_new reset mdl)) = 1)"
proof -
  have "list_all recognized screens \<Longrightarrow> screens \<noteq> [] \<Longrightarrow> recognized (last screens)"
    by (simp add: list_all_iff)
  then show ?thesis
    by (auto simp add: visible_count_switchToScreen visible_count_switchAll)
qed

theorem switchToScreen_one_visible_witness:
  "recognized \<lparr>screen_type = ''game''\<rparr> \<and>
   visible_count (run (\<lambda>m::nat. 0) (switchToScreen \<lparr>screen_type = ''game''\<rparr>)
     (App_new (\<lambda>m. 0) 7)) = 1 \<and>
   list_all recognized [\<lparr>screen_type = ''game''\<rparr>, \<lparr>screen_type = ''menu''\<rparr>] \<and>
   visible_count (switchAll (\<lambda>m::nat. 0)
     [\<lparr>screen_type = ''game''\<rparr>, \<lparr>screen_type = ''menu''\<rparr>] (App_new (\<lambda>m. 0) 7)) = 1"
  using
    switchToScreen_one_visible [where reset = "\<lambda>m::nat. 0"
      and screen = "\<lparr>screen_type = ''game''\<rparr>" and app = "App_new (\<lambda>m. 0) 7" and mdl = 7
      and screens = "[\<lparr>screen_type = ''game''\<rparr>, \<lparr>screen_type = ''menu''\<rparr>]"]
  by (simp add: recognized_def)

text \<open>
  C2: in one call of \<open>switchToScreen\<close> every view is made invisible before any view is made
  visible: the effects of the call are a first part that hides every view and shows none,
  and a rest that hides none. In every state the call passes through, from the one after
  its first effect to its last, at most one view is visible, whatever the state the call
  started from.
\<close>

theorem hide_all_before_show_one:
  "(\<exists>hs es. switchToScreen screen = hs @ es \<and>
       (\<forall>v. SetVisible v False \<in> set hs) \<and>
       (\<forall>e \<in> set hs. \<not> is_show e) \<and>
       (\<forall>e \<in> set es. \<not> is_hide e)) \<and>
   (\<forall>s \<in> set (states_during reset (switchToScreen screen) app). visible_count s \<le> 1)"
proof (intro conjI)
  let ?hs = "ScreenController_hide MenuScreenController @ ScreenController_hide GameScreenController"
  let ?es = "if screen_type screen = ''menu'' then ScreenController_show MenuScreenController
      else if screen_type screen = ''game'' then startGame else []"
  have all_hidden: "\<forall>v. SetVisible v False \<in> set ?hs"
  proof
    fix v show "SetVisible v False \<in> set ?hs"
      by (cases v) (simp_all add: method_defs)
  qed
  have no_show: "\<forall>e \<in> set ?hs. \<not> is_show e"
    by (simp add: method_defs is_show_def)
  have no_hide: "\<forall>e \<in> set ?es. \<not> is_hide e"
    by (auto simp add: method_defs is_hide_def)
  from hide_all_split [of screen] all_hidden no_show no_hide
  show "\<exists>hs es. switchToScreen screen = hs @ es \<and>
       (\<forall>v. SetVisible v False \<in> set hs) \<and>
       (\<forall>e \<in> set hs. \<not> is_show e) \<and>
       (\<forall>e \<in> set es. \<not> is_hide e)"
    by blast
  show "\<forall>s \<in> set (states_during reset (switchToScreen screen) app). visible_count s \<le> 1"
    using states_during_switchToScreen by blast
qed

theorem hide_all_before_show_one_witness:
  "visible_count
     \<lparr>menuGroup = Konva_Group True, gameGroup = Konva_Group True, model = 0::nat, draws = 0\<rparr> = 2 \<and>
   length (states_during (\<lambda>m. 0) (switchToScreen \<lparr>screen_type = ''menu''\<rparr>)
     \<lparr>menuGroup = Konva_Group True, gameGroup = Konva_Group True, model = 0::nat, draws = 0\<rparr>) = 6 \<and>
   list_all (\<lambda>s. visible_count s \<le> 1)
     (states_during (\<lambda>m. 0) (switchToScreen \<lparr>screen_type = ''menu''\<rparr>)
       \<lparr>menuGroup = Konva_Group True, gameGroup = Konva_Group True, model = 0::nat, draws = 0\<rparr>)"
  using
    hide_all_before_show_one [where reset = "\<lambda>m::nat. 0"
      and screen = "\<lparr>screen_type = ''menu''\<rparr>"
      and app = "\<lparr>menuGroup = Konva_Group True, gameGroup = Konva_Group True,
        model = 0::nat, draws = 0\<rparr>"]
  by (simp add: list_all_iff visible_count_def Konva_Group_def method_defs)

text \<open>
  C3: \<open>switchToScreen\<close> with the tag \<open>game\<close> ends with the effects of \<open>startGame\<close>; the
  reset of the game model is performed once and before the one effect that makes a view
  visible, which is on the game view; and the call leaves the game view visible, the menu
  view hidden and the model reset.
\<close>

theorem switchToScreen_game_startGame:
  "(\<exists>pre. switchToScreen \<lparr>screen_type = ''game''\<rparr> = pre @ startGame) \<and>
   (\<exists>pre mid post.
      switchToScreen \<lparr>screen_type = ''game''\<rparr> =
        pre @ [ModelReset] @ mid @ [SetVisible GameScreenView True] @ post \<and>
      ModelReset \<notin> set (pre @ mid @ post) \<and>
      SetVisible GameScreenView True \<notin> set (pre @ mid @ post) \<and>
      SetVisible MenuScreenView True \<notin> set (pre @ mid @ post)) \<and>
   node_visible (gameGroup (run reset (switchToScreen \<lparr>screen_type = ''game''\<rparr>) app)) \<and>
   \<not> node_visible (menuGroup (run reset (switchToScreen \<lparr>screen_type = ''game''\<rparr>) app)) \<and>
   model (run reset (switchToScreen \<lparr>screen_type = ''game''\<rparr>) app) = reset (model app)"
proof (intro conjI)
  show "\<exists>pre. switchToScreen \<lparr>screen_type = ''game''\<rparr> = pre @ startGame"
    by (simp add: switchToScreen_def)
  have "ModelReset \<notin> set ([SetVisible MenuScreenView False, DrawLayer MenuScreenView,
      SetVisible GameScreenView False, DrawLayer GameScreenView] @ [] @ [DrawLayer GameScreenView])"
    and "SetVisible GameScreenView True \<notin> set ([SetVisible MenuScreenView False, DrawLayer MenuScreenView,
      SetVisible GameScreenView False, DrawLayer GameScreenView] @ [] @ [DrawLayer GameScreenView])"
    and "SetVisible MenuScreenView True \<notin> set ([SetVisible MenuScreenView False, DrawLayer MenuScreenView,
      SetVisible GameScreenView False, DrawLayer GameScreenView] @ [] @ [DrawLayer GameScreenView])"
    by simp_all
  with switchToScreen_game
  show "\<exists>pre mid post.
      switchToScreen \<lparr>screen_type = ''game''\<rparr> =
        pre @ [ModelReset] @ mid @ [SetVisible GameScreenView True] @ post \<and>
      ModelReset \<notin> set (pre @ mid @ post) \<and>
      SetVisible GameScreenView True \<notin> set (pre @ mid @ post) \<and>
      SetVisible MenuScreenView True \<notin> set (pre @ mid @ post)"
    by blast
  show "node_visible (gameGroup (run reset (switchToScreen \<lparr>screen_type = ''game''\<rparr>) app))"
    by (simp add: method_defs run_def)
  show "\<not> node_visible (menuGroup (run reset (switchToScreen \<lparr>screen_type = ''game''\<rparr>) app))"
    by (simp add: method_defs run_def)
  show "model (run reset (switchToScreen \<lparr>screen_type = ''game''\<rparr>) app) = reset (model app)"
    by (simp add: method_defs run_def)
qed

theorem switchToScreen_game_startGame_witness:
  "node_visible (gameGroup (run (\<lambda>m::nat. 0) (switchToScreen \<lparr>screen_type = ''game''\<rparr>)
     (App_new (\<lambda>m. 0) 7))) \<and>
   \<not> node_visible (menuGroup (run (\<lambda>m::nat. 0) (switchToScreen \<lparr>screen_type = ''game''\<rparr>)
     (App_new (\<lambda>m. 0) 7))) \<and>
   model (App_new (\<lambda>m::nat. 0) 7) = 7 \<and>
   model (run (\<lambda>m::nat. 0) (switchToScreen \<lparr>screen_type = ''game''\<rparr>)
     (App_new (\<lambda>m. 0) 7)) = 0"
  using
    switchToScreen_game_startGame [where reset = "\<lambda>m::nat. 0" and app = "App_new (\<lambda>m. 0) 7"]
  by (simp add: App_new_def run_def method_defs)

text \<open>
  C8: \<open>show\<close> and \<open>hide\<close> of a view are idempotent. A second call in a row leaves the
  state of the first but for one more redraw request (none when the group is in no
  layer), the view is visible after one or two calls of \<open>show\<close> and hidden after one or
  two calls of \<open>hide\<close>, and \<open>show\<close>, \<open>hide\<close>, \<open>show\<close> leaves it visible.
\<close>

theorem show_hide_idempotent:
  "run reset (View_show v @ View_show v) app =
     (run reset (View_show v) app)
       \<lparr>draws := draws (run reset (View_show v) app) + (if node_layer (group_of v app) then 1 else 0)\<rparr> \<and>
   run reset (View_hide v @ View_hide v) app =
     (run reset (View_hide v) app)
       \<lparr>draws := draws (run reset (View_hide v) app) + (if node_layer (group_of v app) then 1 else 0)\<rparr> \<and>
   node_visible (group_of v (run reset (View_show v) app)) \<and>
   node_visible (group_of v (run reset (View_show v @ View_show v) app)) \<and>
   \<not> node_visible (group_of v (run reset (View_hide v) app)) \<and>
   \<not> node_visible (group_of v (run reset (View_hide v @ View_hide v) app)) \<and>
   node_visible (group_of v (run reset (View_show v @ View_hide v @ View_show v) app))"
  by (cases v) (simp_all add: method_defs run_def)

theorem show_hide_idempotent_witness:
  "draws (run (\<lambda>m::nat. 0) (View_show MenuScreenView) (App_new (\<lambda>m. 0) 7)) = 3 \<and>
   draws (run (\<lambda>m::nat. 0) (View_show MenuScreenView @ View_show MenuScreenView)
     (App_new (\<lambda>m. 0) 7)) = 4 \<and>
   run (\<lambda>m::nat. 0) (View_show MenuScreenView @ View_show MenuScreenView) (App_new (\<lambda>m. 0) 7) =
     (run (\<lambda>m::nat. 0) (View_show MenuScreenView) (App_new (\<lambda>m. 0) 7))\<lparr>draws := 4\<rparr> \<and>
   \<not> node_visible (menuGroup (run (\<lambda>m::nat. 0)
     (View_hide MenuScreenView @ View_hide MenuScreenView) (App_new (\<lambda>m. 0) 7))) \<and>
   node_visible (menuGroup (run (\<lambda>m::nat. 0)
     (View_show MenuScreenView @ View_hide MenuScreenView @ View_show MenuScreenView)
     (App_new (\<lambda>m. 0) 7)))"
  using
    show_hide_idempotent [where reset = "\<lambda>m::nat. 0" and v = MenuScreenView
      and app = "App_new (\<lambda>m. 0) 7"]
  by (simp add: App_new_def run_def method_defs MenuScreenView_new_def Konva_Group_def)

end
